theory Spec2Isabelle
  imports Complex_Main
begin

section \<open>Strings and the escaping primitive\<close>

text \<open>
  JavaScript strings are modelled as \<open>string\<close>. Only ASCII text is considered: the
  catalog holds three-letter ASCII codes and dates are rendered with digits and hyphens.
\<close>

fun join :: "string \<Rightarrow> string list \<Rightarrow> string" where
  \<comment> \<open>\<open>Array.prototype.join\<close> on an array of strings\<close>
  "join sep [] = []"
| "join sep [x] = x"
| "join sep (x # y # ys) = x @ sep @ join sep (y # ys)"

definition upper_char :: "char \<Rightarrow> char" where
  "upper_char c =
     (let n = (of_char c :: nat) in if 97 \<le> n \<and> n \<le> 122 then ''ABCDEFGHIJKLMNOPQRSTUVWXYZ'' ! (n - 97) else c)"

definition toUpperCase :: "string \<Rightarrow> string" where
  "toUpperCase s = map upper_char s"

definition endsWith :: "string \<Rightarrow> string \<Rightarrow> bool" where
  "endsWith s suffix = (length suffix \<le> length s \<and> drop (length s - length suffix) s = suffix)"

definition digit_char :: "nat \<Rightarrow> char" where
  "digit_char d = ''0123456789'' ! d"

fun show_nat :: "nat \<Rightarrow> string" where
  "show_nat n = (if n < 10 then [digit_char n] else show_nat (n div 10) @ [digit_char (n mod 10)])"

declare show_nat.simps [simp del]

definition hex_char :: "nat \<Rightarrow> char" where
  "hex_char d = ''0123456789ABCDEF'' ! d"

definition unreserved :: "char \<Rightarrow> bool" where
  \<comment> \<open>the characters \<open>encodeURIComponent\<close> leaves alone: letters, digits and \<open>-_.!~*'()\<close>\<close>
  "unreserved c =
     (let n = (of_char c :: nat) in
        (65 \<le> n \<and> n \<le> 90) \<or> (97 \<le> n \<and> n \<le> 122) \<or> (48 \<le> n \<and> n \<le> 57) \<or>
        n \<in> {45, 95, 46, 33, 126, 42, 39, 40, 41})"

definition encode_char :: "char \<Rightarrow> string" where
  "encode_char c =
     (if unreserved c then [c]
      else [CHR ''%'', hex_char ((of_char c :: nat) div 16), hex_char ((of_char c :: nat) mod 16)])"

definition encodeURIComponent :: "string \<Rightarrow> string" where
  "encodeURIComponent s = concat (map encode_char s)"

section \<open>The query string builder\<close>

text \<open>
  \<open>QueryStringBuilder\<close> keeps its parameters in a plain object \<open>_obj\<close>. An object is
  modelled as the list of its own properties in enumeration order; assigning to an
  existing key keeps the key's position, assigning to a new key appends it. (Keys that
  look like array indices are enumerated first by JavaScript; the builder is only ever
  given the keys \<open>start_at\<close>, \<open>end_at\<close>, \<open>base\<close> and \<open>symbols\<close>.)
\<close>

type_synonym 'v obj = "(string \<times> 'v) list"

fun obj_set :: "string \<Rightarrow> 'v \<Rightarrow> 'v obj \<Rightarrow> 'v obj" where
  "obj_set k v [] = [(k, v)]"
| "obj_set k v ((k', v') # ps) = (if k' = k then (k, v) # ps else (k', v') # obj_set k v ps)"

definition build :: "string obj \<Rightarrow> string" where
  "build obj =
     (let qs = join ''&'' (map (\<lambda>(key, val). key @ ''='' @ val) obj)
      in if length qs = 0 then '''' else ''?'' @ qs)"

definition addParam :: "string \<Rightarrow> string \<Rightarrow> bool \<Rightarrow> string obj \<Rightarrow> string obj" where
  "addParam key val encode obj =
     (let paramKey = (if encode then encodeURIComponent key else key);
          paramVal = (if encode then encodeURIComponent val else val)
      in obj_set paramKey paramVal obj)"

section \<open>Errors\<close>

text \<open>
  The source throws \<open>ExchangeRatesError\<close> and \<open>TypeError\<close>, each with a message;
  \<open>Number.prototype.toFixed\<close> throws \<open>RangeError\<close>; the transport rejects with an
  error of its own, of which only the message is ever read.
\<close>

datatype error =
    ExchangeRatesError string
  | TypeError string
  | RangeError string
  | TransportError string

fun message :: "error \<Rightarrow> string" where
  "message (ExchangeRatesError m) = m"
| "message (TypeError m) = m"
| "message (RangeError m) = m"
| "message (TransportError m) = m"

section \<open>The date collaborator\<close>

text \<open>
  A JavaScript \<open>Date\<close> is its time value in milliseconds, or the invalid date. The
  functions taken from the date library (\<open>parse\<close>, \<open>isValid\<close>, \<open>isAfter\<close>,
  \<open>getYear\<close>, \<open>format\<close>) convert their argument with \<open>parse\<close> first. What depends on
  the library's text parser and on the local time zone is a parameter: how a text is
  read, the calendar year of a time value, its \<open>YYYY-MM-DD\<close> rendering, and the text
  a \<open>Date\<close> is printed as.
\<close>

datatype jsdate = InvalidDate | Date int

datatype date_input = RawText string | StructuredDate jsdate

record datelib =
  parse_text :: "string \<Rightarrow> jsdate"
  full_year :: "int \<Rightarrow> int"
  format_ymd :: "int \<Rightarrow> string"
  show_date :: "jsdate \<Rightarrow> string"

definition parse :: "datelib \<Rightarrow> date_input \<Rightarrow> jsdate" where
  "parse lib d = (case d of RawText s \<Rightarrow> parse_text lib s | StructuredDate x \<Rightarrow> x)"

definition isValid :: "jsdate \<Rightarrow> error + bool" where
  \<comment> \<open>throws only when its argument is not a \<open>Date\<close>, which a \<open>jsdate\<close> always is\<close>
  "isValid d = Inr (d \<noteq> InvalidDate)"

definition isAfter :: "datelib \<Rightarrow> date_input \<Rightarrow> date_input \<Rightarrow> bool" where
  "isAfter lib a b =
     (case parse lib a of
        InvalidDate \<Rightarrow> False
      | Date x \<Rightarrow> (case parse lib b of InvalidDate \<Rightarrow> False | Date y \<Rightarrow> x > y))"

definition getYear :: "datelib \<Rightarrow> date_input \<Rightarrow> int option" where
  \<comment> \<open>\<open>None\<close> is \<open>NaN\<close>, the year of the invalid date\<close>
  "getYear lib a = (case parse lib a of InvalidDate \<Rightarrow> None | Date x \<Rightarrow> Some (full_year lib x))"

definition less_than :: "int option \<Rightarrow> int \<Rightarrow> bool" where
  \<comment> \<open>\<open><\<close> on numbers: false when the left operand is \<open>NaN\<close>\<close>
  "less_than x n = (case x of None \<Rightarrow> False | Some y \<Rightarrow> y < n)"

subsection \<open>utils\<close>

definition parseDate :: "datelib \<Rightarrow> date_input \<Rightarrow> error + date_input" where
  "parseDate lib date =
     (let parsedDate = parse lib date in
      case isValid parsedDate of
        Inl err \<Rightarrow> Inl (ExchangeRatesError (show_date lib parsedDate @ '' is not a valid date''))
      | Inr valid \<Rightarrow> Inr date)"

definition formatDate :: "datelib \<Rightarrow> date_input \<Rightarrow> string" where
  "formatDate lib date =
     (case parse lib date of InvalidDate \<Rightarrow> ''Invalid Date'' | Date x \<Rightarrow> format_ymd lib x)"

definition untrailingSlashIt :: "string \<Rightarrow> string" where
  "untrailingSlashIt str = (if endsWith str ''/'' then take (length str - 1) str else str)"

section \<open>The request configuration\<close>

text \<open>
  Arrays are objects with identity: \<open>symbols\<close> keeps the array it was given, and writes
  into it. Arrays therefore live in a store, a list of arrays addressed by position; a
  value that is not an array is a string or something else, of which only the text that
  \<open>join\<close> prints is kept.
\<close>

type_synonym addr = nat

datatype jsval = JString string | JOther string

type_synonym heap = "jsval list list"

datatype cur_arg = Single jsval | Array addr

fun render :: "jsval \<Rightarrow> string" where
  "render (JString s) = s"
| "render (JOther s) = s"

record exchange_rates =
  p_api_base_url :: string
  p_base :: "string option"
  p_symbols :: "addr option"
  p_from :: date_input
  p_to :: "date_input option"

definition API_BASE_URL :: string where
  "API_BASE_URL = ''https://api.ratesapi.io''"

definition Latest :: date_input where
  "Latest = RawText ''latest''"

definition exchangeRates :: exchange_rates where
  "exchangeRates =
     \<lparr>p_api_base_url = API_BASE_URL, p_base = None, p_symbols = None,
      p_from = Latest, p_to = None\<rparr>"

definition validateCurrency :: "string list \<Rightarrow> string \<Rightarrow> error + unit" where
  "validateCurrency currenciesList currency =
     (if currency \<notin> set currenciesList
      then Inl (ExchangeRatesError (currency @ '' is not a valid currency''))
      else Inr ())"

definition isHistoryRequest :: "exchange_rates \<Rightarrow> bool" where
  "isHistoryRequest c = (p_to c \<noteq> None)"

definition check_year :: "datelib \<Rightarrow> exchange_rates \<Rightarrow> error + unit" where
  "check_year lib c =
     (if p_from c \<noteq> Latest \<and> less_than (getYear lib (p_from c)) 1999
      then Inl (ExchangeRatesError ''Cannot get historical rates before 1999'')
      else Inr ())"

definition validate :: "datelib \<Rightarrow> exchange_rates \<Rightarrow> error + unit" where
  "validate lib c =
     (case p_to c of
        None \<Rightarrow> check_year lib c
      | Some t \<Rightarrow>
          if p_from c = Latest
          then Inl (ExchangeRatesError
                 ''Cannot set the 'from' date to 'latest' when fetching a date range'')
          else if isAfter lib (p_from c) t
          then Inl (ExchangeRatesError ''The 'from' date cannot be after the 'to' date'')
          else check_year lib c)"

definition truthy :: "string option \<Rightarrow> bool" where
  \<comment> \<open>\<open>null\<close> and the empty string are falsy\<close>
  "truthy s = (case s of None \<Rightarrow> False | Some x \<Rightarrow> x \<noteq> [])"

definition buildUrl :: "datelib \<Rightarrow> heap \<Rightarrow> exchange_rates \<Rightarrow> string" where
  "buildUrl lib h c =
     (let url = p_api_base_url c @ ''/'';
          qs = [];
          (url, qs) =
            (case p_to c of
               Some t \<Rightarrow>
                 (url @ ''history'',
                  addParam ''end_at'' (formatDate lib t) True
                    (addParam ''start_at'' (formatDate lib (p_from c)) True qs))
             | None \<Rightarrow>
                 (url @ (if p_from c = Latest then ''latest'' else formatDate lib (p_from c)),
                  qs));
          qs = (case p_base c of
                  Some b \<Rightarrow> if truthy (p_base c) then addParam ''base'' b True qs else qs
                | None \<Rightarrow> qs);
          qs = (case p_symbols c of
                  Some a \<Rightarrow> addParam ''symbols'' (join '','' (map render (h ! a))) False qs
                | None \<Rightarrow> qs)
      in url @ build qs)"

text \<open>
  The configuration methods mutate the instance and return it, or throw. Each is a
  function from the instance before the call to the error thrown, if any, and the
  instance after the call.
\<close>

definition setApiBaseUrl :: "string \<Rightarrow> exchange_rates \<Rightarrow> exchange_rates" where
  "setApiBaseUrl url c = c\<lparr>p_api_base_url := untrailingSlashIt url\<rparr>"

definition at_date ::
  "datelib \<Rightarrow> date_input \<Rightarrow> exchange_rates \<Rightarrow> error option \<times> exchange_rates" where
  "at_date lib date c =
     (case parseDate lib date of Inl e \<Rightarrow> (Some e, c) | Inr d \<Rightarrow> (None, c\<lparr>p_from := d\<rparr>))"

definition latest :: "exchange_rates \<Rightarrow> exchange_rates" where
  "latest c = c\<lparr>p_from := Latest\<rparr>"

definition from_date ::
  "datelib \<Rightarrow> date_input \<Rightarrow> exchange_rates \<Rightarrow> error option \<times> exchange_rates" where
  "from_date lib date c =
     (case parseDate lib date of Inl e \<Rightarrow> (Some e, c) | Inr d \<Rightarrow> (None, c\<lparr>p_from := d\<rparr>))"

definition to_date ::
  "datelib \<Rightarrow> date_input \<Rightarrow> exchange_rates \<Rightarrow> error option \<times> exchange_rates" where
  "to_date lib date c =
     (case parseDate lib date of Inl e \<Rightarrow> (Some e, c) | Inr d \<Rightarrow> (None, c\<lparr>p_to := Some d\<rparr>))"

definition base ::
  "string list \<Rightarrow> cur_arg \<Rightarrow> exchange_rates \<Rightarrow> error option \<times> exchange_rates" where
  "base currenciesList currency c =
     (case currency of
        Single (JString s) \<Rightarrow>
          (let currencyUpper = toUpperCase s in
           case validateCurrency currenciesList currencyUpper of
             Inl e \<Rightarrow> (Some e, c)
           | Inr ok \<Rightarrow> (None, c\<lparr>p_base := Some currencyUpper\<rparr>))
      | _ \<Rightarrow> (Some (TypeError ''Base currency has to be a string''), c))"

text \<open>
  The loop of \<open>symbols\<close> walks the array from the front and overwrites each element with
  its upper-case form as soon as that element has passed both checks; at the first
  element that fails it throws, leaving the elements before it overwritten. The function
  returns the array as the loop leaves it, with the error if there was one. A single
  value is wrapped in a new array first; an array argument is used as it is, so the
  overwriting is visible to whoever else holds that array.
\<close>

fun symbols_loop :: "string list \<Rightarrow> jsval list \<Rightarrow> error option \<times> jsval list" where
  "symbols_loop currenciesList [] = (None, [])"
| "symbols_loop currenciesList (JOther v # rest) =
     (Some (TypeError ''Symbol currencies have to be strings''), JOther v # rest)"
| "symbols_loop currenciesList (JString s # rest) =
     (let currency = toUpperCase s in
      case validateCurrency currenciesList currency of
        Inl e \<Rightarrow> (Some e, JString s # rest)
      | Inr ok \<Rightarrow>
          (let (err, rest') = symbols_loop currenciesList rest
           in (err, JString currency # rest')))"

definition symbols ::
  "string list \<Rightarrow> cur_arg \<Rightarrow> heap \<Rightarrow> exchange_rates \<Rightarrow>
   error option \<times> heap \<times> exchange_rates" where
  "symbols currenciesList currencies h c =
     (let (currenciesArray, h1) =
            (case currencies of
               Array a \<Rightarrow> (a, h)
             | Single v \<Rightarrow> (length h, h @ [[v]]));
          (err, elems) = symbols_loop currenciesList (h1 ! currenciesArray);
          h2 = h1[currenciesArray := elems]
      in case err of
           Some e \<Rightarrow> (Some e, h2, c)
         | None \<Rightarrow> (None, h2, c\<lparr>p_symbols := Some currenciesArray\<rparr>))"

definition url :: "datelib \<Rightarrow> heap \<Rightarrow> exchange_rates \<Rightarrow> error + string" where
  "url lib h c = (case validate lib c of Inl e \<Rightarrow> Inl e | Inr ok \<Rightarrow> Inr (buildUrl lib h c))"

section \<open>Responses\<close>

text \<open>
  The \<open>rates\<close> part of a response body is a number or an object whose properties are
  again such values (a currency's rate, the rates of a date, the dates of a range).
  Numbers are rationals: sums, quotients and products below are exact, where the source
  computes them in double precision; infinities are left out. \<open>NaN\<close> is what
  arithmetic on an object gives.
\<close>

datatype jv = Num rat | NaN | Obj "(string \<times> jv) list"

fun props :: "jv \<Rightarrow> (string \<times> jv) list" where
  \<comment> \<open>the own properties that \<open>Object.keys\<close> and \<open>Object.values\<close> enumerate\<close>
  "props (Obj ps) = ps"
| "props (Num x) = []"
| "props NaN = []"

definition vals :: "jv \<Rightarrow> jv list" where
  "vals v = map snd (props v)"

definition normalize_rates :: "jv \<Rightarrow> jv" where
  \<comment> \<open>\<open>(keys.length === 1) ? data.rates[keys[0]] : data.rates\<close>\<close>
  "normalize_rates rates = (case props rates of [(key, v)] \<Rightarrow> v | _ \<Rightarrow> rates)"

text \<open>
  The transport resolves with a status and a body, or rejects. Reading the body as JSON
  may reject as well; a parsed body has a \<open>rates\<close> property or not (\<open>None\<close>: absent or
  \<open>null\<close>, on which \<open>Object.keys\<close> throws).
\<close>

datatype body = Malformed string | Json "jv option"

record response =
  status :: nat
  content :: body

type_synonym transport = "string \<Rightarrow> error + response"

definition json :: "response \<Rightarrow> error + jv option" where
  "json r = (case content r of Malformed m \<Rightarrow> Inl (TransportError m) | Json d \<Rightarrow> Inr d)"

definition on_response :: "response \<Rightarrow> error + jv option" where
  \<comment> \<open>the first \<open>then\<close> of \<open>fetch\<close>\<close>
  "on_response r =
     (if status r \<noteq> 200
      then Inl (ExchangeRatesError
             (''API returned a bad response (HTTP '' @ show_nat (status r) @ '')''))
      else json r)"

definition on_data :: "jv option \<Rightarrow> error + jv" where
  \<comment> \<open>the second \<open>then\<close> of \<open>fetch\<close>\<close>
  "on_data rates =
     (case rates of
        None \<Rightarrow> Inl (TypeError ''Cannot convert undefined or null to object'')
      | Some r \<Rightarrow> Inr (normalize_rates r))"

definition on_error :: "error \<Rightarrow> error + jv" where
  \<comment> \<open>the \<open>catch\<close> of \<open>fetch\<close>\<close>
  "on_error err = Inl (ExchangeRatesError (''Couldn't fetch the exchange rate, '' @ message err))"

definition and_then :: "error + 'a \<Rightarrow> ('a \<Rightarrow> error + 'b) \<Rightarrow> error + 'b" where
  "and_then p f = (case p of Inl e \<Rightarrow> Inl e | Inr x \<Rightarrow> f x)"

definition fetch :: "datelib \<Rightarrow> transport \<Rightarrow> heap \<Rightarrow> exchange_rates \<Rightarrow> error + jv" where
  "fetch lib tr h c =
     (case validate lib c of
        Inl e \<Rightarrow> Inl e
      | Inr ok \<Rightarrow>
          (case and_then (and_then (tr (buildUrl lib h c)) on_response) on_data of
             Inl err \<Rightarrow> on_error err
           | Inr rates \<Rightarrow> Inr rates))"

subsection \<open>Averaging\<close>

datatype places_arg = PNull | PNumber rat | POther

definition isInteger :: "places_arg \<Rightarrow> bool" where
  "isInteger p = (case p of PNumber x \<Rightarrow> x = of_int \<lfloor>x\<rfloor> | _ \<Rightarrow> False)"

definition negative :: "places_arg \<Rightarrow> bool" where
  "negative p = (case p of PNumber x \<Rightarrow> x < 0 | _ \<Rightarrow> False)"

definition obj_push :: "string \<Rightarrow> 'v \<Rightarrow> 'v list obj \<Rightarrow> 'v list obj" where
  \<comment> \<open>\<open>mergedObj[key] = mergedObj[key] || []; mergedObj[key].push(v)\<close>\<close>
  "obj_push key v mergedObj =
     obj_set key ((case map_of mergedObj key of None \<Rightarrow> [] | Some xs \<Rightarrow> xs) @ [v]) mergedObj"

definition merge_entry :: "jv list obj \<Rightarrow> jv \<Rightarrow> jv list obj" where
  "merge_entry mergedObj obj = foldl (\<lambda>m (key, v). obj_push key v m) mergedObj (props obj)"

definition merge :: "jv \<Rightarrow> jv list obj" where
  "merge rates = foldl merge_entry [] (vals rates)"

text \<open>
  \<open>reduce((p, c) => p + c, 0)\<close>: the accumulator is a number until an object is added,
  which turns it into a string that no longer reads as a number.
\<close>

datatype acc = AccNum rat | AccNaN | AccStr

fun add :: "acc \<Rightarrow> jv \<Rightarrow> acc" where
  "add (AccNum p) (Num c) = AccNum (p + c)"
| "add (AccNum p) NaN = AccNaN"
| "add AccNaN (Num c) = AccNaN"
| "add AccNaN NaN = AccNaN"
| "add AccStr c = AccStr"
| "add p (Obj ps) = AccStr"

fun over :: "acc \<Rightarrow> nat \<Rightarrow> jv" where
  "over (AccNum s) n = (if n = 0 then NaN else Num (s / of_nat n))"
| "over AccNaN n = NaN"
| "over AccStr n = NaN"

definition toFixed :: "nat \<Rightarrow> rat \<Rightarrow> rat" where
  \<comment> \<open>\<open>+x.toFixed(d)\<close>: the nearest multiple of \<open>10^-d\<close>, ties away from zero\<close>
  "toFixed d x =
     (if \<bar>x\<bar> \<ge> 10 ^ 21 then x
      else sgn x * of_int \<lfloor>\<bar>x\<bar> * 10 ^ d + 1 / 2\<rfloor> / 10 ^ d)"

definition rounded :: "places_arg \<Rightarrow> jv \<Rightarrow> error + jv" where
  "rounded decimalPlaces avgRate =
     (case decimalPlaces of
        PNumber d \<Rightarrow>
          if d < 0 \<or> d > 100
          then Inl (RangeError ''toFixed() digits argument must be between 0 and 100'')
          else Inr (case avgRate of Num x \<Rightarrow> Num (toFixed (nat \<lfloor>d\<rfloor>) x) | _ \<Rightarrow> NaN)
      | _ \<Rightarrow> Inr avgRate)"

fun avg_loop :: "places_arg \<Rightarrow> jv list obj \<Rightarrow> jv obj \<Rightarrow> error + jv obj" where
  "avg_loop decimalPlaces [] avgRates = Inr avgRates"
| "avg_loop decimalPlaces ((key, xs) # rest) avgRates =
     (let avgRate = over (foldl add (AccNum 0) xs) (length xs) in
      case rounded decimalPlaces avgRate of
        Inl e \<Rightarrow> Inl e
      | Inr r \<Rightarrow> avg_loop decimalPlaces rest (obj_set key r avgRates))"

definition average :: "places_arg \<Rightarrow> jv \<Rightarrow> error + jv" where
  \<comment> \<open>the body of the \<open>then\<close> of \<open>avg\<close> for a history request; when \<open>mergedObj\<close> has
      one key, \<open>avgRates\<close> has that key alone and \<open>avgRates[keys[0]]\<close> is its value\<close>
  "average decimalPlaces rates =
     (let mergedObj = merge rates in
      case avg_loop decimalPlaces mergedObj [] of
        Inl e \<Rightarrow> Inl e
      | Inr avgRates \<Rightarrow>
          Inr (if length (map fst mergedObj) = 1 then snd (hd avgRates) else Obj avgRates))"

definition avg ::
  "datelib \<Rightarrow> transport \<Rightarrow> heap \<Rightarrow> exchange_rates \<Rightarrow> places_arg \<Rightarrow> error + jv" where
  "avg lib tr h c decimalPlaces =
     (if decimalPlaces \<noteq> PNull \<and> \<not> isInteger decimalPlaces
      then Inl (ExchangeRatesError ''The decimal places parameter has to be an integer'')
      else if decimalPlaces \<noteq> PNull \<and> negative decimalPlaces
      then Inl (ExchangeRatesError ''Decimal places cannot be negative'')
      else
        (case fetch lib tr h c of
           Inl e \<Rightarrow> Inl e
         | Inr rates \<Rightarrow> if \<not> isHistoryRequest c then Inr rates else average decimalPlaces rates))"

subsection \<open>convert\<close>

datatype amount_arg = Amount rat | AmountNaN | NotNumber

fun multiply :: "jv \<Rightarrow> amount_arg \<Rightarrow> jv" where
  "multiply (Num rate) (Amount amount) = Num (rate * amount)"
| "multiply rate amount = NaN"

definition convert ::
  "datelib \<Rightarrow> string list \<Rightarrow> transport \<Rightarrow> heap \<Rightarrow>
   amount_arg \<Rightarrow> cur_arg \<Rightarrow> cur_arg \<Rightarrow> date_input \<Rightarrow> error + jv" where
  "convert lib currenciesList tr h amount fromCurrency toCurrency date =
     (if amount = NotNumber
      then Inl (TypeError ''The 'amount' parameter has to be a number'')
      else
        (case toCurrency of
           Array a \<Rightarrow> Inl (TypeError ''Cannot convert to multiple currencies at the same time'')
         | Single v \<Rightarrow>
             (case (if date = Latest then (None, latest exchangeRates)
                    else at_date lib date exchangeRates) of
                (Some e, instance) \<Rightarrow> Inl e
              | (None, instance) \<Rightarrow>
                  (case base currenciesList fromCurrency instance of
                     (Some e, instance) \<Rightarrow> Inl e
                   | (None, instance) \<Rightarrow>
                       (case symbols currenciesList toCurrency h instance of
                          (Some e, h', instance) \<Rightarrow> Inl e
                        | (None, h', instance) \<Rightarrow>
                            and_then (fetch lib tr h' instance)
                              (\<lambda>rate. Inr (multiply rate amount)))))))"

section \<open>An instance of the date collaborator\<close>

text \<open>
  For concrete runs: texts of the form \<open>YYYY-MM-DD\<close>, read and printed in UTC on the
  proleptic Gregorian calendar. Any other text is an invalid date.
\<close>

definition digit_val :: "char \<Rightarrow> nat option" where
  "digit_val c =
     (let n = (of_char c :: nat) in if 48 \<le> n \<and> n \<le> 57 then Some (n - 48) else None)"

fun read_nat :: "nat \<Rightarrow> string \<Rightarrow> nat option" where
  "read_nat n [] = Some n"
| "read_nat n (c # cs) =
     (case digit_val c of None \<Rightarrow> None | Some d \<Rightarrow> read_nat (10 * n + d) cs)"

definition leap :: "int \<Rightarrow> bool" where
  "leap y = (y mod 4 = 0 \<and> (y mod 100 \<noteq> 0 \<or> y mod 400 = 0))"

definition days_in_month :: "int \<Rightarrow> int \<Rightarrow> int" where
  "days_in_month y m =
     (if m = 2 then (if leap y then 29 else 28)
      else if m \<in> {4, 6, 9, 11} then 30 else 31)"

definition days_from_civil :: "int \<Rightarrow> int \<Rightarrow> int \<Rightarrow> int" where
  "days_from_civil y0 m d =
     (let y = (if m \<le> 2 then y0 - 1 else y0);
          era = y div 400;
          yoe = y - era * 400;
          doy = (153 * (if m > 2 then m - 3 else m + 9) + 2) div 5 + d - 1;
          doe = yoe * 365 + yoe div 4 - yoe div 100 + doy
      in era * 146097 + doe - 719468)"

definition civil_from_days :: "int \<Rightarrow> int \<times> int \<times> int" where
  "civil_from_days z0 =
     (let z = z0 + 719468;
          era = z div 146097;
          doe = z - era * 146097;
          yoe = (doe - doe div 1460 + doe div 36524 - doe div 146096) div 365;
          y = yoe + era * 400;
          doy = doe - (365 * yoe + yoe div 4 - yoe div 100);
          mp = (5 * doy + 2) div 153;
          d = doy - (153 * mp + 2) div 5 + 1;
          m = (if mp < 10 then mp + 3 else mp - 9)
      in (if m \<le> 2 then y + 1 else y, m, d))"

definition ms_per_day :: int where
  "ms_per_day = 86400000"

definition iso_parse :: "string \<Rightarrow> jsdate" where
  "iso_parse s =
     (if length s = 10 \<and> s ! 4 = CHR ''-'' \<and> s ! 7 = CHR ''-''
      then
        (case (read_nat 0 (take 4 s), read_nat 0 (take 2 (drop 5 s)), read_nat 0 (drop 8 s)) of
           (Some y, Some m, Some d) \<Rightarrow>
             if 1 \<le> m \<and> m \<le> 12 \<and> 1 \<le> d \<and> int d \<le> days_in_month (int y) (int m)
             then Date (days_from_civil (int y) (int m) (int d) * ms_per_day)
             else InvalidDate
         | _ \<Rightarrow> InvalidDate)
      else InvalidDate)"

definition pad :: "nat \<Rightarrow> int \<Rightarrow> string" where
  "pad w n = (let t = show_nat (nat n) in replicate (w - length t) CHR ''0'' @ t)"

definition utc_year :: "int \<Rightarrow> int" where
  "utc_year t = fst (civil_from_days (t div ms_per_day))"

definition utc_ymd :: "int \<Rightarrow> string" where
  "utc_ymd t =
     (case civil_from_days (t div ms_per_day) of
        (y, m, d) \<Rightarrow> pad 4 y @ ''-'' @ pad 2 m @ ''-'' @ pad 2 d)"

definition utc_show :: "jsdate \<Rightarrow> string" where
  "utc_show d = (case d of InvalidDate \<Rightarrow> ''Invalid Date'' | Date t \<Rightarrow> utc_ymd t)"

definition utc_lib :: datelib where
  "utc_lib =
     \<lparr>parse_text = iso_parse, full_year = utc_year, format_ymd = utc_ymd,
      show_date = utc_show\<rparr>"

section \<open>The specification's names for the errors\<close>

text \<open>
  The source has one error class of its own and tells its errors apart by message. The
  specification names them; each name stands for the error the source throws.
\<close>

definition InvalidRangeRequest :: error where
  "InvalidRangeRequest =
     ExchangeRatesError ''Cannot set the 'from' date to 'latest' when fetching a date range''"

definition InvalidDateOrder :: error where
  "InvalidDateOrder = ExchangeRatesError ''The 'from' date cannot be after the 'to' date''"

definition DateOutOfRange :: error where
  "DateOutOfRange = ExchangeRatesError ''Cannot get historical rates before 1999''"

definition ApiError :: "nat \<Rightarrow> error" where
  "ApiError code =
     ExchangeRatesError (''API returned a bad response (HTTP '' @ show_nat code @ '')'')"

definition FetchFailed :: "string \<Rightarrow> error" where
  "FetchFailed cause = ExchangeRatesError (''Couldn't fetch the exchange rate, '' @ cause)"


section \<open>The URL as the specification describes it\<close>

text \<open>
  The endpoint, the parameters in their order with the encoding each one gets, and the
  assembled query string, written after the specification of the URL builder; the URL
  that the source builds is compared with these below. A \<open>YYYY-MM-DD\<close> text consists
  of digits and hyphens.
\<close>

definition ymd_text :: "string \<Rightarrow> bool" where
  "ymd_text s = list_all (\<lambda>ch. ch \<in> set ''0123456789-'') s"

definition endpoint :: "datelib \<Rightarrow> exchange_rates \<Rightarrow> string" where
  "endpoint lib c =
     (if isHistoryRequest c then ''history''
      else if p_from c = Latest then ''latest''
      else formatDate lib (p_from c))"

definition param :: "bool \<Rightarrow> string \<Rightarrow> string \<Rightarrow> string \<times> string" where
  "param encode key val =
     (if encode then (encodeURIComponent key, encodeURIComponent val) else (key, val))"

definition query_params :: "datelib \<Rightarrow> heap \<Rightarrow> exchange_rates \<Rightarrow> (string \<times> string) list" where
  "query_params lib h c =
     (case p_to c of
        None \<Rightarrow> []
      | Some t \<Rightarrow>
          [param True ''start_at'' (formatDate lib (p_from c)),
           param True ''end_at'' (formatDate lib t)]) @
     (case p_base c of
        None \<Rightarrow> []
      | Some b \<Rightarrow> if b = [] then [] else [param True ''base'' b]) @
     (case p_symbols c of
        None \<Rightarrow> []
      | Some a \<Rightarrow> [param False ''symbols'' (join '','' (map render (h ! a)))])"

definition query_string :: "(string \<times> string) list \<Rightarrow> string" where
  "query_string ps =
     (if ps = [] then '''' else ''?'' @ join ''&'' (map (\<lambda>(key, val). key @ ''='' @ val) ps))"

section \<open>The averages as the specification describes them\<close>








section \<open>Grouping by key\<close>




section \<open>A transport for concrete runs\<close>

text \<open>
  It answers the one URL it expects with status 200 and the given \<open>rates\<close>, and any
  other URL with status 404.
\<close>

definition mock_transport :: "string \<Rightarrow> jv \<Rightarrow> transport" where
  "mock_transport expected rates u =
     (if u = expected then Inr \<lparr>status = 200, content = Json (Some rates)\<rparr>
      else Inr \<lparr>status = 404, content = Malformed ''Not Found''\<rparr>)"



section \<open>Predicates used in the statements\<close>


fun is_num :: "jv \<Rightarrow> bool" where
  "is_num (Num x) = True"
| "is_num v = False"

section \<open>Properties\<close>

subsection \<open>Date setters\<close>

lemma parseDate_returns_input: "parseDate lib date = Inr date"
  by (simp add: parseDate_def isValid_def)

lemma from_date_stores: "from_date lib date c = (None, c\<lparr>p_from := date\<rparr>)"
  by (simp add: from_date_def parseDate_returns_input)


lemma to_date_stores: "to_date lib date c = (None, c\<lparr>p_to := Some date\<rparr>)"
  by (simp add: to_date_def parseDate_returns_input)

text \<open>
  C4. A configuration in which \<open>to\<close> is present and \<open>from\<close> is \<open>Latest\<close> is rejected by
  \<open>validate\<close> with \<open>InvalidRangeRequest\<close>, and so are \<open>url\<close>, \<open>fetch\<close> and \<open>avg\<close> on it,
  whatever the transport would answer. In particular \<open>.to(d)\<close> on a new instance gives
  such a configuration.
\<close>

theorem range_from_latest_rejected:
  "(p_to c \<noteq> None \<and> p_from c = Latest \<longrightarrow>
      validate lib c = Inl InvalidRangeRequest \<and>
      url lib h c = Inl InvalidRangeRequest \<and>
      fetch lib tr h c = Inl InvalidRangeRequest \<and>
      avg lib tr h c PNull = Inl InvalidRangeRequest) \<and>
   to_date lib d exchangeRates = (None, exchangeRates\<lparr>p_to := Some d\<rparr>) \<and>
   validate lib (exchangeRates\<lparr>p_to := Some d\<rparr>) = Inl InvalidRangeRequest"
  by (auto simp: validate_def url_def fetch_def avg_def InvalidRangeRequest_def
      to_date_stores exchangeRates_def)

theorem range_from_latest_rejected_witness:
  "fetch utc_lib (\<lambda>u. Inr \<lparr>status = 200, content = Json (Some (Num 1))\<rparr>) []
     (exchangeRates\<lparr>p_to := Some (RawText ''2018-06-21'')\<rparr>) = Inl InvalidRangeRequest"
  using range_from_latest_rejected
    [of "exchangeRates\<lparr>p_to := Some (RawText ''2018-06-21'')\<rparr>" utc_lib "[]"
        "\<lambda>u. Inr \<lparr>status = 200, content = Json (Some (Num 1))\<rparr>"]
  by (simp add: exchangeRates_def)

text \<open>
  C2, at the input \<open>'not a date'\<close>. The date collaborator reads the text as the invalid
  date, yet \<open>from\<close> and \<open>at\<close> throw nothing and store the text itself: \<open>parseDate\<close>
  discards the answer of \<open>isValid\<close>, which does not throw, and returns its argument
  instead of the parsed date.
\<close>

theorem unparsable_date_accepted:
  "parse utc_lib (RawText ''not a date'') = InvalidDate \<and>
   from_date utc_lib (RawText ''not a date'') exchangeRates
     = (None, exchangeRates\<lparr>p_from := RawText ''not a date''\<rparr>) \<and>
   at_date utc_lib (RawText ''not a date'') exchangeRates
     = (None, exchangeRates\<lparr>p_from := RawText ''not a date''\<rparr>)"
proof -
  have "parse utc_lib (RawText ''not a date'') = InvalidDate"
    by code_simp
  then show ?thesis
    by (simp add: from_date_def at_date_def parseDate_def isValid_def)
qed

subsection \<open>Validation\<close>




subsection \<open>Fetching\<close>

text \<open>
  C7. On an object whose values are all numbers, \<open>normalize\<close> (the reshaping step of
  \<open>fetch\<close>) returns the single value when there is exactly one key and the object
  itself otherwise, and applying it twice gives what applying it once gives.
\<close>

theorem normalize_rates_collapse:
  assumes "list_all (\<lambda>(code, rate). is_num rate) ps"
  shows "(ps = [(code, v)] \<longrightarrow> normalize_rates (Obj ps) = v) \<and>
         (length ps \<noteq> 1 \<longrightarrow> normalize_rates (Obj ps) = Obj ps) \<and>
         normalize_rates (normalize_rates (Obj ps)) = normalize_rates (Obj ps)"
proof -
  have one: "normalize_rates (Obj [(k, Num x)]) = Num x" for k x
    by (simp add: normalize_rates_def)
  have num: "normalize_rates (Num x) = Num x" for x
    by (simp add: normalize_rates_def)
  have many: "length qs \<noteq> 1 \<Longrightarrow> normalize_rates (Obj qs) = Obj qs" for qs
    by (auto simp: normalize_rates_def split: list.splits prod.splits)
  show ?thesis
  proof (cases "length ps = 1")
    case True
    then obtain k w where ps: "ps = [(k, w)]"
      by (cases ps) auto
    with assms obtain x where "w = Num x"
      by (cases w) auto
    with ps show ?thesis
      by (auto simp: one num)
  next
    case False
    then show ?thesis
      by (auto simp: many)
  qed
qed

theorem normalize_rates_collapse_witness:
  "normalize_rates (Obj [(''EUR'', Num (4 / 5))]) = Num (4 / 5) \<and>
   normalize_rates (Obj [(''EUR'', Num (4 / 5)), (''USD'', Num 1)])
     = Obj [(''EUR'', Num (4 / 5)), (''USD'', Num 1)]"
  using normalize_rates_collapse [of "[(''EUR'', Num (4 / 5))]" "''EUR''" "Num (4 / 5)"]
    normalize_rates_collapse [of "[(''EUR'', Num (4 / 5)), (''USD'', Num 1)]"]
  by simp

text \<open>
  C3 as stated fails: the error thrown for a status other than 200 is caught by the
  \<open>catch\<close> at the end of the same chain and comes out wrapped like every other failure,
  not as the \<open>ApiError\<close> itself.
\<close>

theorem bad_status_counterexample:
  "fetch utc_lib (mock_transport ''https://example.org/'' (Num 1)) [] exchangeRates
     = Inl (FetchFailed ''API returned a bad response (HTTP 404)'') \<and>
   fetch utc_lib (mock_transport ''https://example.org/'' (Num 1)) [] exchangeRates
     \<noteq> Inl (ApiError 404)"
  by (simp add: fetch_def validate_def check_year_def exchangeRates_def and_then_def
      on_response_def on_error_def FetchFailed_def ApiError_def show_nat.simps digit_char_def
      mock_transport_def buildUrl_def build_def API_BASE_URL_def Latest_def)

text \<open>
  C3, amended. On a configuration that validates, a status other than 200 makes
  \<open>fetch\<close> fail with \<open>FetchFailed\<close> carrying the message of the \<open>ApiError\<close> for that
  status, which names the status code; a rejected request, a body that cannot be read
  and a body without \<open>rates\<close> make it fail with \<open>FetchFailed\<close> carrying the message of
  the cause.
\<close>

theorem fetch_failures_wrapped:
  assumes "validate lib c = Inr ()"
  shows "(tr (buildUrl lib h c) = Inr r \<and> status r \<noteq> 200 \<longrightarrow>
            fetch lib tr h c = Inl (FetchFailed (message (ApiError (status r))))) \<and>
         (tr (buildUrl lib h c) = Inl e \<longrightarrow> fetch lib tr h c = Inl (FetchFailed (message e))) \<and>
         (tr (buildUrl lib h c) = Inr r \<and> status r = 200 \<and> content r = Malformed m \<longrightarrow>
            fetch lib tr h c = Inl (FetchFailed m)) \<and>
         (tr (buildUrl lib h c) = Inr r \<and> status r = 200 \<and> content r = Json None \<longrightarrow>
            fetch lib tr h c = Inl (FetchFailed ''Cannot convert undefined or null to object''))"
  using assms
  by (simp add: fetch_def and_then_def on_response_def on_data_def on_error_def json_def
      FetchFailed_def ApiError_def)

theorem fetch_failures_wrapped_witness:
  "fetch utc_lib (\<lambda>u. Inr \<lparr>status = 500, content = Malformed ''oops''\<rparr>) [] exchangeRates
     = Inl (FetchFailed ''API returned a bad response (HTTP 500)'') \<and>
   fetch utc_lib (\<lambda>u. Inl (TransportError ''network down'')) [] exchangeRates
     = Inl (FetchFailed ''network down'')"
proof -
  have v: "validate utc_lib exchangeRates = Inr ()"
    by (simp add: validate_def check_year_def exchangeRates_def)
  have m: "message (ApiError 500) = ''API returned a bad response (HTTP 500)''"
    by (simp add: ApiError_def show_nat.simps digit_char_def)
  show ?thesis
    using fetch_failures_wrapped [OF v, of "\<lambda>u. Inr \<lparr>status = 500, content = Malformed ''oops''\<rparr>" "[]"
        "\<lparr>status = 500, content = Malformed ''oops''\<rparr>"]
      fetch_failures_wrapped [OF v, of "\<lambda>u. Inl (TransportError ''network down'')" "[]" _
        "TransportError ''network down''"] m
    by simp
qed

subsection \<open>Building the URL\<close>

lemma encode_unreserved: "list_all unreserved s \<Longrightarrow> encodeURIComponent s = s"
  by (induction s) (simp_all add: encodeURIComponent_def encode_char_def)

lemma ymd_char_unreserved: "ch \<in> set ''0123456789-'' \<Longrightarrow> unreserved ch"
  by (auto simp: unreserved_def)

lemma encode_ymd_text: "ymd_text s \<Longrightarrow> encodeURIComponent s = s"
  by (rule encode_unreserved) (simp add: ymd_text_def list_all_iff ymd_char_unreserved del: set_simps)

lemma encode_keys:
  "encodeURIComponent ''start_at'' = ''start_at''"
  "encodeURIComponent ''end_at'' = ''end_at''"
  "encodeURIComponent ''base'' = ''base''"
  by (simp_all add: encodeURIComponent_def encode_char_def unreserved_def)

lemma join_pairs_nonempty:
  "ps \<noteq> [] \<Longrightarrow> join sep (map (\<lambda>(key, val). key @ ''='' @ val) ps) \<noteq> []"
  by (induction ps rule: induct_list012) (auto split: prod.splits)

lemma build_query_string: "build obj = query_string obj"
  using join_pairs_nonempty [of obj "''&''"]
  by (cases "obj = []") (simp_all add: build_def query_string_def Let_def)

lemma obj_set_nonempty: "obj_set k v obj \<noteq> []"
  by (cases obj) (auto split: if_splits)

text \<open>
  C6. The URL that \<open>buildUrl\<close> assembles is the base URL, a slash, the endpoint and
  the query string of the parameters in the order \<open>start_at\<close>, \<open>end_at\<close>, \<open>base\<close>,
  \<open>symbols\<close>: the first three with key and value percent-encoded, \<open>symbols\<close> with
  its comma-joined value as it is. The builder gives the empty string when it holds no
  parameter and a string starting with \<open>?\<close> once a parameter has been added.
\<close>

theorem buildUrl_query:
  "buildUrl lib h c =
     p_api_base_url c @ ''/'' @ endpoint lib c @ query_string (query_params lib h c) \<and>
   build [] = '''' \<and>
   build (addParam key val encode obj) =
     ''?'' @ join ''&'' (map (\<lambda>(k, v). k @ ''='' @ v) (addParam key val encode obj))"
proof -
  have url: "buildUrl lib h c =
     p_api_base_url c @ ''/'' @ endpoint lib c @ query_string (query_params lib h c)"
    by (simp add: buildUrl_def build_query_string endpoint_def query_params_def param_def
        addParam_def encode_keys isHistoryRequest_def truthy_def Let_def
        split: option.splits)
  have "addParam key val encode obj \<noteq> []"
    by (simp add: addParam_def Let_def obj_set_nonempty)
  then show ?thesis
    using url by (simp add: build_query_string query_string_def)
qed

theorem buildUrl_query_witness:
  "buildUrl utc_lib [[JString ''EUR'', JString ''GBP'']]
     (exchangeRates\<lparr>p_from := RawText ''2018-01-01'', p_to := Some (RawText ''2018-09-01''),
        p_base := Some ''USD'', p_symbols := Some 0\<rparr>)
   = ''https://api.ratesapi.io/history?start_at=2018-01-01&end_at=2018-09-01&base=USD&symbols=EUR,GBP''"
proof -
  let ?c = "exchangeRates\<lparr>p_from := RawText ''2018-01-01'', p_to := Some (RawText ''2018-09-01''),
        p_base := Some ''USD'', p_symbols := Some 0\<rparr>"
  let ?h = "[[JString ''EUR'', JString ''GBP'']]"
  have "p_api_base_url ?c @ ''/'' @ endpoint utc_lib ?c @ query_string (query_params utc_lib ?h ?c)
     = ''https://api.ratesapi.io/history?start_at=2018-01-01&end_at=2018-09-01&base=USD&symbols=EUR,GBP''"
    by code_simp
  then show ?thesis
    using buildUrl_query [of utc_lib ?h ?c] by simp
qed

text \<open>
  C5 as stated fails: a range within 1998 is in order, yet it does not validate.
\<close>

theorem range_url_counterexample:
  "\<not> isAfter utc_lib (RawText ''1998-01-01'') (RawText ''1998-06-01'') \<and>
   url utc_lib []
     (snd (to_date utc_lib (RawText ''1998-06-01'')
        (snd (from_date utc_lib (RawText ''1998-01-01'') exchangeRates))))
   = Inl DateOutOfRange"
proof -
  have a: "\<not> isAfter utc_lib (RawText ''1998-01-01'') (RawText ''1998-06-01'')"
    by code_simp
  have y: "getYear utc_lib (RawText ''1998-01-01'') = Some 1998"
    by code_simp
  show ?thesis
    using a y
    by (simp add: from_date_stores to_date_stores url_def validate_def check_year_def
        less_than_def exchangeRates_def Latest_def DateOutOfRange_def)
qed

text \<open>
  C5, amended. For dates \<open>d1\<close> and \<open>d2\<close> that the collaborator renders as
  \<open>YYYY-MM-DD\<close> texts, the chain \<open>.from(d1).to(d2)\<close> on a new instance validates and
  builds \<open>/history?start_at=<d1>&end_at=<d2>\<close> when \<open>d1\<close> is not after \<open>d2\<close> and the
  year of \<open>d1\<close> is 1999 or later; when \<open>d1\<close> is after \<open>d2\<close> validation fails with
  \<open>InvalidDateOrder\<close>.
\<close>

theorem range_url:
  assumes "d1 \<noteq> Latest"
    and "parse lib d1 = Date t1" and "parse lib d2 = Date t2"
    and "ymd_text (format_ymd lib t1)" and "ymd_text (format_ymd lib t2)"
  shows "from_date lib d1 exchangeRates = (None, exchangeRates\<lparr>p_from := d1\<rparr>) \<and>
         to_date lib d2 (exchangeRates\<lparr>p_from := d1\<rparr>)
           = (None, exchangeRates\<lparr>p_from := d1, p_to := Some d2\<rparr>) \<and>
         (t1 \<le> t2 \<and> 1999 \<le> full_year lib t1 \<longrightarrow>
            url lib h (exchangeRates\<lparr>p_from := d1, p_to := Some d2\<rparr>)
              = Inr (API_BASE_URL @ ''/history?start_at='' @ format_ymd lib t1 @
                     ''&end_at='' @ format_ymd lib t2)) \<and>
         (t1 > t2 \<longrightarrow>
            validate lib (exchangeRates\<lparr>p_from := d1, p_to := Some d2\<rparr>) = Inl InvalidDateOrder)"
proof -
  let ?c = "exchangeRates\<lparr>p_from := d1, p_to := Some d2\<rparr>"
  have after: "isAfter lib d1 d2 \<longleftrightarrow> t1 > t2"
    using assms by (simp add: isAfter_def)
  have year: "getYear lib d1 = Some (full_year lib t1)"
    using assms by (simp add: getYear_def)
  have fmt: "formatDate lib d1 = format_ymd lib t1" "formatDate lib d2 = format_ymd lib t2"
    using assms by (simp_all add: formatDate_def)
  have build: "buildUrl lib h ?c =
      API_BASE_URL @ ''/history?start_at='' @ format_ymd lib t1 @ ''&end_at='' @ format_ymd lib t2"
    using assms(4,5)
    by (simp add: buildUrl_def addParam_def encode_keys encode_ymd_text fmt build_def Let_def
        exchangeRates_def)
  have ok: "t1 \<le> t2 \<Longrightarrow> 1999 \<le> full_year lib t1 \<Longrightarrow> validate lib ?c = Inr ()"
    using assms(1) after year
    by (simp add: validate_def check_year_def less_than_def exchangeRates_def)
  have bad: "t1 > t2 \<Longrightarrow> validate lib ?c = Inl InvalidDateOrder"
    using assms(1) after
    by (simp add: validate_def exchangeRates_def InvalidDateOrder_def)
  show ?thesis
    using build ok bad
    by (auto simp: from_date_stores to_date_stores url_def)
qed

theorem range_url_witness:
  "url utc_lib []
     (snd (to_date utc_lib (RawText ''2018-06-21'')
        (snd (from_date utc_lib (RawText ''2018-06-01'') exchangeRates))))
     = Inr ''https://api.ratesapi.io/history?start_at=2018-06-01&end_at=2018-06-21'' \<and>
   validate utc_lib
     (snd (to_date utc_lib (RawText ''2018-06-01'')
        (snd (from_date utc_lib (RawText ''2018-06-21'') exchangeRates))))
     = Inl InvalidDateOrder"
proof -
  let ?a = "RawText ''2018-06-01''" and ?b = "RawText ''2018-06-21''"
  have n: "?a \<noteq> Latest" "?b \<noteq> Latest"
    by (simp_all add: Latest_def)
  have pa: "parse utc_lib ?a = Date 1527811200000"
    by code_simp
  have pb: "parse utc_lib ?b = Date 1529539200000"
    by code_simp
  have fa: "format_ymd utc_lib 1527811200000 = ''2018-06-01''"
    by code_simp
  have fb: "format_ymd utc_lib 1529539200000 = ''2018-06-21''"
    by code_simp
  have ta: "ymd_text (format_ymd utc_lib 1527811200000)"
    unfolding fa by (simp add: ymd_text_def)
  have tb: "ymd_text (format_ymd utc_lib 1529539200000)"
    unfolding fb by (simp add: ymd_text_def)
  have ya: "full_year utc_lib 1527811200000 = 2018"
    by code_simp
  show ?thesis
    using range_url [OF n(1) pa pb ta tb, of "[]"] range_url [OF n(2) pb pa tb ta, of "[]"]
    by (simp add: fa fb ya API_BASE_URL_def)
qed

subsection \<open>Currency setters\<close>




subsection \<open>Conversion\<close>



subsection \<open>Averaging\<close>




























end
